theory Spec2Isabelle
  imports Complex_Main
begin

section \<open>The analysis core of ExcelAnalyzer.tsx\<close>

text \<open>
  The component reads the first sheet of a workbook, finds an action column and a
  due-date column from the header row, classifies every data row and reports counts
  and percentages. The functions embedded here are \<open>isAssigned\<close>, \<open>parseDate\<close>,
  \<open>getTodayInKolkata\<close>, \<open>findColumns\<close> and the body of \<open>analyzeExcel\<close> from the
  sheet onwards (decoding the file bytes is the xlsx library's work).

  Conventions of the embedding:
  \<^item> a JavaScript number is an exact rational and the arithmetic is exact; the
    engine computes in IEEE doubles, which agree while every intermediate value is
    a whole number below \<open>2^53\<close> and may differ in the last place otherwise (a
    quotient of counts, the milliseconds of a fractional serial);
  \<^item> a string is a list of 8-bit characters; \<open>toLowerCase\<close> and \<open>trim\<close> are
    given on ASCII text;
  \<^item> a Date is its time value in milliseconds, or the invalid date;
  \<^item> what the JavaScript engine and the clock decide (parsing a date string,
    rendering a number, the local midnight of 1900-01-01, today's date) is a
    field of the record \<open>host\<close>; today's date is taken to be a valid Date;
  \<^item> a cell value is a string, a number, a boolean or absent, as the library
    yields them when read without the \<open>cellDates\<close> option; NaN is not a value.
\<close>

subsection \<open>JavaScript values\<close>

datatype jsval = JUndefined | JNull | JBool bool | JNum rat | JStr string

text \<open>Truthiness, as \<open>!x\<close>, \<open>x || y\<close> and \<open>x && y\<close> read it.\<close>

fun truthy :: "jsval \<Rightarrow> bool" where
  "truthy JUndefined = False"
| "truthy JNull = False"
| "truthy (JBool b) = b"
| "truthy (JNum n) = (n \<noteq> 0)"
| "truthy (JStr s) = (s \<noteq> [])"

definition js_or :: "jsval \<Rightarrow> jsval \<Rightarrow> jsval" where
  "js_or a b = (if truthy a then a else b)"

datatype jsdate = Date int | InvalidDate

datatype error = Error string

record host =
  numberToString :: "rat \<Rightarrow> string"
  dateParse :: "string \<Rightarrow> int option"
  excelEpoch :: int
  todayInKolkata :: int
  toISODate :: "int \<Rightarrow> string"
  toFixed0 :: "rat \<Rightarrow> string"

text \<open>
  \<open>numberToString\<close> is \<open>String(n)\<close> on a number; \<open>dateParse s\<close> is the time value
  of \<open>new Date(s)\<close> for a string, \<open>None\<close> when it is NaN; \<open>excelEpoch\<close> is
  \<open>new Date(1900, 0, 1).getTime()\<close>, the host's local midnight of 1900-01-01;
  \<open>todayInKolkata\<close> is the time value \<open>getTodayInKolkata()\<close> returns;
  \<open>toISODate t\<close> is \<open>toISOString().split('T')[0]\<close> of the date with time value
  \<open>t\<close>; \<open>toFixed0\<close> is \<open>toFixed(0)\<close>.
\<close>

subsection \<open>Strings\<close>

definition String_js :: "host \<Rightarrow> jsval \<Rightarrow> string" where
  "String_js h x =
     (case x of
        JUndefined \<Rightarrow> ''undefined''
      | JNull \<Rightarrow> ''null''
      | JBool b \<Rightarrow> (if b then ''true'' else ''false'')
      | JNum n \<Rightarrow> numberToString h n
      | JStr s \<Rightarrow> s)"

definition lowerChar :: "char \<Rightarrow> char" where
  "lowerChar c =
     (case map_of (zip ''ABCDEFGHIJKLMNOPQRSTUVWXYZ'' ''abcdefghijklmnopqrstuvwxyz'') c of
        Some l \<Rightarrow> l
      | None \<Rightarrow> c)"

definition toLowerCase :: "string \<Rightarrow> string" where
  "toLowerCase s = map lowerChar s"

definition isSpace :: "char \<Rightarrow> bool" where
  "isSpace c = (c \<in> set [CHR 0x09, CHR 0x0A, CHR 0x0B, CHR 0x0C, CHR 0x0D, CHR 0x20])"

definition trim :: "string \<Rightarrow> string" where
  "trim s = rev (dropWhile isSpace (rev (dropWhile isSpace s)))"

fun startsWith :: "string \<Rightarrow> string \<Rightarrow> bool" where
  "startsWith s [] = True"
| "startsWith [] (c # cs) = False"
| "startsWith (x # xs) (c # cs) = (x = c \<and> startsWith xs cs)"

fun includes_js :: "string \<Rightarrow> string \<Rightarrow> bool" where
  "includes_js [] sub = (sub = [])"
| "includes_js (x # xs) sub = (startsWith (x # xs) sub \<or> includes_js xs sub)"

text \<open>\<open>includes_js s sub\<close> is \<open>s.includes(sub)\<close>.\<close>

subsection \<open>isAssigned\<close>

definition isAssigned :: "host \<Rightarrow> jsval \<Rightarrow> bool" where
  "isAssigned h val =
     (if val = JNull \<or> val = JUndefined \<or> val = JStr '''' then False
      else
        let str = trim (toLowerCase (String_js h val)) in
        str \<in> set [''yes'', ''true'', ''assigned'', ''done'', ''1''] \<or>
        (str \<noteq> ''no'' \<and> str \<noteq> ''false'' \<and> str \<noteq> ''unassigned'' \<and> str \<noteq> ''0'' \<and> str \<noteq> ''''))"

subsection \<open>The worksheet\<close>

text \<open>
  A cell of the xlsx library carries its raw value \<open>v\<close> and, when the library
  formatted it, its display text \<open>w\<close>. A sheet maps addresses to cells and holds
  its range under \<open>!ref\<close>. An address such as \<open>B3\<close> is kept as the pair of its
  column letters and its zero-based row, here \<open>(''B'', 2)\<close>: the template
  \<open>`${col}${row + 1}`\<close> and \<open>encode_cell({r: row, c: col})\<close> build the same text.
\<close>

record cell =
  cell_v :: jsval
  cell_w :: "string option"

record sheet_range =
  s_r :: nat
  s_c :: nat
  e_r :: nat
  e_c :: nat

type_synonym address = "string \<times> nat"

record worksheet =
  ref :: "sheet_range option"
  cells :: "address \<Rightarrow> cell option"

definition decode_range_ref :: "worksheet \<Rightarrow> sheet_range" where
  "decode_range_ref ws =
     (case ref ws of
        None \<Rightarrow> \<lparr>s_r = 0, s_c = 0, e_r = 0, e_c = 0\<rparr>
      | Some r \<Rightarrow> r)"

text \<open>
  \<open>decode_range_ref\<close> is \<open>XLSX.utils.decode_range(worksheet['!ref'] || 'A1')\<close>.
  \<open>encode_col\<close> is the library's column code: 0 is A, 25 is Z, 26 is AA.
\<close>

function encode_col_loop :: "nat \<Rightarrow> string \<Rightarrow> string" where
  "encode_col_loop col s =
     (if col = 0 then s
      else encode_col_loop ((col - 1) div 26)
             ((''ABCDEFGHIJKLMNOPQRSTUVWXYZ'' ! ((col - 1) mod 26)) # s))"
  by pat_completeness auto
termination
  by (relation "measure fst") (auto intro: le_less_trans [OF div_le_dividend])

declare encode_col_loop.simps [simp del]

definition encode_col :: "nat \<Rightarrow> string" where
  "encode_col col = encode_col_loop (Suc col) []"

definition encode_cell :: "nat \<Rightarrow> nat \<Rightarrow> address" where
  "encode_cell r c = (encode_col c, r)"

definition opt_v :: "cell option \<Rightarrow> jsval" where
  "opt_v c = (case c of None \<Rightarrow> JUndefined | Some x \<Rightarrow> cell_v x)"

definition opt_w :: "cell option \<Rightarrow> jsval" where
  "opt_w c =
     (case c of
        None \<Rightarrow> JUndefined
      | Some x \<Rightarrow> (case cell_w x of None \<Rightarrow> JUndefined | Some t \<Rightarrow> JStr t))"

text \<open>\<open>opt_v c\<close> is \<open>c?.v\<close> and \<open>opt_w c\<close> is \<open>c?.w\<close>.\<close>

definition cellInput :: "cell option \<Rightarrow> jsval" where
  "cellInput c = js_or (opt_w c) (opt_v c)"

subsection \<open>Loops\<close>

text \<open>\<open>for (i = lo; i <= hi; i++) body\<close>; a \<open>continue\<close> is a body that returns its state.\<close>

function for_upto :: "nat \<Rightarrow> nat \<Rightarrow> (nat \<Rightarrow> 's \<Rightarrow> 's) \<Rightarrow> 's \<Rightarrow> 's" where
  "for_upto i hi body st = (if i \<le> hi then for_upto (Suc i) hi body (body i st) else st)"
  by pat_completeness auto
termination
  by (relation "measure (\<lambda>(i, hi, body, st). Suc hi - i)") auto

declare for_upto.simps [simp del]

subsection \<open>parseDate and getTodayInKolkata\<close>

text \<open>
  \<open>new Date(t)\<close> on a number clips: beyond 8.64e15 ms the date is invalid, else the
  time value is \<open>t\<close> cut to an integer towards zero.
\<close>

definition ToInteger :: "rat \<Rightarrow> int" where
  "ToInteger t = (if 0 \<le> t then \<lfloor>t\<rfloor> else \<lceil>t\<rceil>)"

definition new_Date_ms :: "rat \<Rightarrow> jsdate" where
  "new_Date_ms t =
     (if \<bar>t\<bar> > 8640000000000000 then InvalidDate else Date (ToInteger t))"

definition new_Date :: "host \<Rightarrow> jsval \<Rightarrow> jsdate" where
  "new_Date h x =
     (case x of
        JStr s \<Rightarrow> (case dateParse h s of None \<Rightarrow> InvalidDate | Some t \<Rightarrow> Date t)
      | JNum n \<Rightarrow> new_Date_ms n
      | JBool b \<Rightarrow> Date (if b then 1 else 0)
      | JNull \<Rightarrow> Date 0
      | JUndefined \<Rightarrow> InvalidDate)"

definition parseDate :: "host \<Rightarrow> jsval \<Rightarrow> jsdate option" where
  "parseDate h dateValue =
     (if \<not> truthy dateValue then None
      else
        case dateValue of
          JNum n \<Rightarrow>
            (let days = n - 2
             in Some (new_Date_ms (of_int (excelEpoch h) + days * 24 * 60 * 60 * 1000)))
        | _ \<Rightarrow>
            (let parsed = new_Date h dateValue
             in if parsed = InvalidDate then None else Some parsed))"

definition getTodayInKolkata :: "host \<Rightarrow> jsdate" where
  "getTodayInKolkata h = Date (todayInKolkata h)"

text \<open>\<open>date_less a b\<close> is \<open>a < b\<close> on two dates: false when either is invalid.\<close>

fun date_less :: "jsdate \<Rightarrow> jsdate \<Rightarrow> bool" where
  "date_less (Date a) (Date b) = (a < b)"
| "date_less _ _ = False"

subsection \<open>findColumns\<close>

record columns =
  actionCol :: "string option"
  dueDateCol :: "string option"

text \<open>\<open>js_not c\<close> is \<open>!c\<close> for a column that is null or a string.\<close>

definition js_not :: "string option \<Rightarrow> bool" where
  "js_not c = (case c of None \<Rightarrow> True | Some s \<Rightarrow> s = [])"

definition headerText :: "host \<Rightarrow> cell \<Rightarrow> string" where
  "headerText h c =
     trim (toLowerCase (String_js h (js_or (js_or (opt_w (Some c)) (cell_v c)) (JStr ''''))))"

definition findColumns_body :: "host \<Rightarrow> worksheet \<Rightarrow> nat \<Rightarrow> columns \<Rightarrow> columns" where
  "findColumns_body h ws col st =
     (case cells ws (encode_cell 0 col) of
        None \<Rightarrow> st
      | Some c \<Rightarrow>
          (let header = headerText h c in
           if includes_js header ''action'' \<and> js_not (actionCol st)
           then st\<lparr>actionCol := Some (encode_col col)\<rparr>
           else if (includes_js header ''due'' \<and> includes_js header ''date'') \<or>
                   (header = ''due date'' \<and> js_not (dueDateCol st))
           then st\<lparr>dueDateCol := Some (encode_col col)\<rparr>
           else st))"

definition findColumns :: "host \<Rightarrow> worksheet \<Rightarrow> columns" where
  "findColumns h ws =
     (let range = decode_range_ref ws
      in for_upto (s_c range) (e_c range) (findColumns_body h ws)
           \<lparr>actionCol = None, dueDateCol = None\<rparr>)"

subsection \<open>analyzeExcel\<close>

record counts =
  totalRows :: nat
  assignedCount :: nat
  overdueCount :: nat

record columns_used =
  action :: string
  due_date :: string

record AnalysisResult =
  total_rows :: nat
  assigned_count :: nat
  assigned_pct :: rat
  overdue_count :: nat
  overdue_pct_of_assigned :: rat
  today_iso :: string
  timezone :: string
  columns_used :: columns_used
  "notes" :: "string list"
  summary :: string

text \<open>The message of the error thrown when no action column was found.\<close>

definition actionColumnMessage :: string where
  \<open>actionColumnMessage =
     ''Action column not found. Please ensure your Excel file has an "Action" column.''\<close>

definition dueDateNote :: string where
  "dueDateNote = ''Due Date column not found. Overdue analysis skipped.''"

text \<open>\<open>Math_round x\<close> is \<open>Math.round(x)\<close>: the nearest integer, a half going up.\<close>

definition Math_round :: "rat \<Rightarrow> int" where
  "Math_round x = \<lfloor>x + 1 / 2\<rfloor>"

text \<open>
  The body of the row loop, with \<open>actionCol\<close> as \<open>acol\<close> (a string here, the call
  having thrown otherwise) and \<open>dueDateCol\<close> as \<open>dueCol\<close> (which may still be null).
\<close>

definition rowBody ::
  "host \<Rightarrow> worksheet \<Rightarrow> string \<Rightarrow> string option \<Rightarrow> jsdate \<Rightarrow> nat \<Rightarrow> counts \<Rightarrow> counts" where
  "rowBody h ws acol dueCol today row st =
     (let actionCell = cells ws (acol, row) in
      if actionCell = None \<and> js_not dueCol then st
      else
        let st1 = st\<lparr>totalRows := totalRows st + 1\<rparr>;
            isActionAssigned = isAssigned h (cellInput actionCell)
        in
          if isActionAssigned then
            let st2 = st1\<lparr>assignedCount := assignedCount st1 + 1\<rparr> in
            (case dueCol of
               None \<Rightarrow> st2
             | Some dcol \<Rightarrow>
                 if dcol = [] then st2
                 else
                   let dueDateCell = cells ws (dcol, row);
                       dueDate = parseDate h (cellInput dueDateCell)
                   in (case dueDate of
                         None \<Rightarrow> st2
                       | Some d \<Rightarrow>
                           if date_less d today
                           then st2\<lparr>overdueCount := overdueCount st2 + 1\<rparr>
                           else st2))
          else st1)"

definition analyzeExcel :: "host \<Rightarrow> worksheet \<Rightarrow> error + AnalysisResult" where
  "analyzeExcel h ws =
     (let range = decode_range_ref ws;
          found = findColumns h ws
      in
        case actionCol found of
          None \<Rightarrow> Inl (Error actionColumnMessage)
        | Some acol \<Rightarrow>
            if acol = [] then Inl (Error actionColumnMessage)
            else
              let notes0 = (if js_not (dueDateCol found) then [dueDateNote] else []);
                  today = getTodayInKolkata h;
                  st = for_upto 1 (e_r range) (rowBody h ws acol (dueDateCol found) today)
                         \<lparr>totalRows = 0, assignedCount = 0, overdueCount = 0\<rparr>;
                  assignedPct =
                    (if totalRows st > 0
                     then (of_nat (assignedCount st) / of_nat (totalRows st)) * 100 else 0);
                  overduePctOfAssigned =
                    (if assignedCount st > 0
                     then (of_nat (overdueCount st) / of_nat (assignedCount st)) * 100 else 0);
                  summary0 =
                    ''Total: '' @ numberToString h (of_nat (totalRows st)) @
                    '' | Assigned: '' @ numberToString h (of_nat (assignedCount st)) @
                    '' ('' @ toFixed0 h assignedPct @
                    ''%) | Overdue: '' @ numberToString h (of_nat (overdueCount st)) @
                    '' ('' @ toFixed0 h overduePctOfAssigned @ ''%)''
              in
                Inr \<lparr>total_rows = totalRows st,
                     assigned_count = assignedCount st,
                     assigned_pct = of_int (Math_round (assignedPct * 10)) / 10,
                     overdue_count = overdueCount st,
                     overdue_pct_of_assigned = of_int (Math_round (overduePctOfAssigned * 10)) / 10,
                     today_iso = toISODate h (todayInKolkata h),
                     timezone = ''Asia/Kolkata'',
                     columns_used =
                       \<lparr>action = acol,
                        due_date =
                          (case dueDateCol found of
                             None \<Rightarrow> ''Not found''
                           | Some d \<Rightarrow> if d = [] then ''Not found'' else d)\<rparr>,
                     notes = notes0,
                     summary = summary0\<rparr>)"

subsection \<open>Notions the properties are stated with\<close>

text \<open>
  The header of a column, as \<open>findColumns\<close> reads it, and the two heuristics. A
  header equal to \<open>due date\<close> contains both \<open>due\<close> and \<open>date\<close>, so the second
  heuristic is the containment alone.
\<close>

definition headerAt :: "host \<Rightarrow> worksheet \<Rightarrow> nat \<Rightarrow> string option" where
  "headerAt h ws col = map_option (headerText h) (cells ws (encode_cell 0 col))"

definition isActionHeader :: "host \<Rightarrow> worksheet \<Rightarrow> nat \<Rightarrow> bool" where
  "isActionHeader h ws col =
     (case headerAt h ws col of None \<Rightarrow> False | Some t \<Rightarrow> includes_js t ''action'')"

definition isDueHeader :: "host \<Rightarrow> worksheet \<Rightarrow> nat \<Rightarrow> bool" where
  "isDueHeader h ws col =
     (case headerAt h ws col of
        None \<Rightarrow> False
      | Some t \<Rightarrow> includes_js t ''due'' \<and> includes_js t ''date'')"

definition headerColumns :: "worksheet \<Rightarrow> nat list" where
  "headerColumns ws = [s_c (decode_range_ref ws) ..< Suc (e_c (decode_range_ref ws))]"

text \<open>The column the scan takes as the action column: the first action header.\<close>

definition takenAsAction :: "host \<Rightarrow> worksheet \<Rightarrow> nat \<Rightarrow> bool" where
  "takenAsAction h ws col =
     (isActionHeader h ws col \<and>
      list_all (\<lambda>c. \<not> isActionHeader h ws c) [s_c (decode_range_ref ws) ..< col])"

definition dueCandidates :: "host \<Rightarrow> worksheet \<Rightarrow> nat list" where
  "dueCandidates h ws =
     filter (\<lambda>col. isDueHeader h ws col \<and> \<not> takenAsAction h ws col) (headerColumns ws)"




text \<open>The display text of a cell when present and non-empty, else its raw value.\<close>

definition displayOrRaw :: "cell option \<Rightarrow> jsval" where
  "displayOrRaw c =
     (case c of
        None \<Rightarrow> JUndefined
      | Some x \<Rightarrow>
          (case cell_w x of
             None \<Rightarrow> cell_v x
           | Some t \<Rightarrow> if t = [] then cell_v x else JStr t))"

text \<open>A due-date value that is missing, or a text the engine cannot read as a date.\<close>

definition unparseableOrMissing :: "host \<Rightarrow> jsval \<Rightarrow> bool" where
  "unparseableOrMissing h x =
     (case x of
        JStr s \<Rightarrow> s = [] \<or> dateParse h s = None
      | _ \<Rightarrow> \<not> truthy x)"

text \<open>
  The due-date column in the words of the specification: the first header that
  contains both \<open>due\<close> and \<open>date\<close>, whatever the action scan did.
\<close>

definition dueDateColumnSpec :: "host \<Rightarrow> worksheet \<Rightarrow> string option" where
  "dueDateColumnSpec h ws = map_option encode_col (find (isDueHeader h ws) (headerColumns ws))"

text \<open>The counts the row loop ends with, for the action column \<open>acol\<close>.\<close>

definition finalCounts :: "host \<Rightarrow> worksheet \<Rightarrow> string \<Rightarrow> counts" where
  "finalCounts h ws acol =
     for_upto 1 (e_r (decode_range_ref ws))
       (rowBody h ws acol (dueDateCol (findColumns h ws)) (getTodayInKolkata h))
       \<lparr>totalRows = 0, assignedCount = 0, overdueCount = 0\<rparr>"

text \<open>
  The invariant of the header scan before column \<open>j\<close>: an action column is set
  exactly when an action header was passed, and the due-date column is one of the
  candidates passed, or null when there was none.
\<close>

definition candidatesBelow :: "host \<Rightarrow> worksheet \<Rightarrow> nat \<Rightarrow> nat list" where
  "candidatesBelow h ws j =
     filter (\<lambda>col. isDueHeader h ws col \<and> \<not> takenAsAction h ws col)
       [s_c (decode_range_ref ws) ..< j]"

definition columnsInv :: "host \<Rightarrow> worksheet \<Rightarrow> nat \<Rightarrow> columns \<Rightarrow> bool" where
  "columnsInv h ws j st =
     (js_not (actionCol st) =
        list_all (\<lambda>c. \<not> isActionHeader h ws c) [s_c (decode_range_ref ws) ..< j] \<and>
      (candidatesBelow h ws j = [] \<longrightarrow> dueDateCol st = None) \<and>
      (candidatesBelow h ws j \<noteq> [] \<longrightarrow>
         dueDateCol st \<in> (\<lambda>c. Some (encode_col c)) ` set (candidatesBelow h ws j)))"

subsection \<open>A sample host and sample sheets\<close>

text \<open>
  A host in the UTC zone on the day 2024-01-01. Its date parser reads the texts the
  examples use as an engine does (a date-only ISO text is the UTC midnight of that
  day, the other texts are no dates); it renders whole numbers and percentages in
  decimal digits, and the one date it is asked to render is its today.
\<close>

function decimal :: "nat \<Rightarrow> string" where
  "decimal n =
     (if n < 10 then [''0123456789'' ! n]
      else decimal (n div 10) @ [''0123456789'' ! (n mod 10)])"
  by pat_completeness auto
termination
  by (relation "measure id") auto

declare decimal.simps [simp del]

definition sampleHost :: host where
  "sampleHost =
     \<lparr>numberToString = (\<lambda>q. (if q < 0 then ''-'' else []) @ decimal (nat \<lfloor>\<bar>q\<bar>\<rfloor>)),
      dateParse = map_of [(''2020-01-01'', 1577836800000), (''2099-01-01'', 4070908800000)],
      excelEpoch = - 2208988800000,
      todayInKolkata = 1704067200000,
      toISODate = (\<lambda>t. ''2024-01-01''),
      toFixed0 = (\<lambda>q. decimal (nat \<lfloor>q + 1 / 2\<rfloor>))\<rparr>"

definition textCell :: "string \<Rightarrow> cell" where
  "textCell s = \<lparr>cell_v = JStr s, cell_w = Some s\<rparr>"

definition sheetOf :: "nat \<Rightarrow> nat \<Rightarrow> (address \<times> cell) list \<Rightarrow> worksheet" where
  "sheetOf lastRow lastCol cs =
     \<lparr>ref = Some \<lparr>s_r = 0, s_c = 0, e_r = lastRow, e_c = lastCol\<rparr>, cells = map_of cs\<rparr>"

text \<open>Scenario A: header Action, Due Date and three data rows.\<close>

definition scenarioA :: worksheet where
  "scenarioA =
     sheetOf 3 1
       [((''A'', 0), textCell ''Action''), ((''B'', 0), textCell ''Due Date''),
        ((''A'', 1), textCell ''Yes''), ((''B'', 1), textCell ''2020-01-01''),
        ((''A'', 2), textCell ''No''), ((''B'', 2), textCell ''2099-01-01''),
        ((''A'', 3), textCell ''true''), ((''B'', 3), textCell ''2020-01-01'')]"

text \<open>A sheet with no action header.\<close>

definition sheetNoAction :: worksheet where
  "sheetNoAction =
     sheetOf 1 1
       [((''A'', 0), textCell ''Name''), ((''B'', 0), textCell ''Due Date''),
        ((''A'', 1), textCell ''Yes''), ((''B'', 1), textCell ''2020-01-01'')]"

text \<open>A sheet with an action column alone, and one row that is not assigned.\<close>

definition sheetActionOnly :: worksheet where
  "sheetActionOnly =
     sheetOf 1 0 [((''A'', 0), textCell ''Action''), ((''A'', 1), textCell ''No'')]"

text \<open>A sheet whose one header matches both heuristics.\<close>

definition sheetBothHeader :: worksheet where
  "sheetBothHeader =
     sheetOf 1 0 [((''A'', 0), textCell ''Action Due Date''), ((''A'', 1), textCell ''Yes'')]"

text \<open>Scenario D: an assigned row whose due date is the text N/A.\<close>

definition scenarioD :: worksheet where
  "scenarioD =
     sheetOf 1 1
       [((''A'', 0), textCell ''Action''), ((''B'', 0), textCell ''Due Date''),
        ((''A'', 1), textCell ''Yes''), ((''B'', 1), textCell ''N/A'')]"

text \<open>
  Sheets whose one assigned row has the due-date serial 43831 (2020-01-01), with the
  display text given, if any.
\<close>

definition sheetSerial :: "string option \<Rightarrow> worksheet" where
  "sheetSerial shown =
     sheetOf 1 1
       [((''A'', 0), textCell ''Action''), ((''B'', 0), textCell ''Due Date''),
        ((''A'', 1), textCell ''Yes''),
        ((''B'', 1), \<lparr>cell_v = JNum 43831, cell_w = shown\<rparr>)]"

text \<open>A sheet with two due-date headers after the action header.\<close>

definition sheetTwoDue :: worksheet where
  "sheetTwoDue =
     sheetOf 1 2
       [((''A'', 0), textCell ''Action''), ((''B'', 0), textCell ''Due Date''),
        ((''C'', 0), textCell ''Date Due'')]"

section \<open>Properties\<close>

subsection \<open>Loops and column codes\<close>

lemma for_upto_stop: "hi < i \<Longrightarrow> for_upto i hi body st = st"
  by (simp add: for_upto.simps)

lemma for_upto_step: "i \<le> hi \<Longrightarrow> for_upto i hi body st = for_upto (Suc i) hi body (body i st)"
  by (subst for_upto.simps) simp

lemma for_upto_inv:
  assumes "P i st"
    and "\<And>j s. i \<le> j \<Longrightarrow> j \<le> hi \<Longrightarrow> P j s \<Longrightarrow> P (Suc j) (body j s)"
    and "i \<le> Suc hi"
  shows "P (Suc hi) (for_upto i hi body st)"
  using assms
proof (induction i hi body st rule: for_upto.induct)
  case (1 i hi body st)
  show ?case
  proof (cases "i \<le> hi")
    case True
    have "P (Suc i) (body i st)"
      using "1.prems"(1,2) True by simp
    moreover have "\<And>j s. Suc i \<le> j \<Longrightarrow> j \<le> hi \<Longrightarrow> P j s \<Longrightarrow> P (Suc j) (body j s)"
      using "1.prems"(2) by simp
    ultimately have "P (Suc hi) (for_upto (Suc i) hi body (body i st))"
      using "1.IH" True by simp
    then show ?thesis
      using True by (simp add: for_upto_step)
  next
    case False
    then have "i = Suc hi"
      using "1.prems"(3) by simp
    then show ?thesis
      using "1.prems"(1) by (simp add: for_upto_stop)
  qed
qed

lemma for_upto_preserve:
  assumes "Q st" and "\<And>j s. Q s \<Longrightarrow> Q (body j s)"
  shows "Q (for_upto i hi body st)"
  using assms
proof (induction i hi body st rule: for_upto.induct)
  case (1 i hi body st)
  show ?case
  proof (cases "i \<le> hi")
    case True
    then show ?thesis
      using "1.IH" "1.prems" by (simp add: for_upto_step)
  next
    case False
    then show ?thesis
      using "1.prems"(1) by (simp add: for_upto_stop)
  qed
qed

lemma encode_col_loop_nonempty: "s \<noteq> [] \<Longrightarrow> encode_col_loop n s \<noteq> []"
proof (induction n s rule: encode_col_loop.induct)
  case (1 col s)
  then show ?case
    by (subst encode_col_loop.simps) simp
qed

lemma encode_col_nonempty: "encode_col col \<noteq> []"
  unfolding encode_col_def
  by (subst encode_col_loop.simps) (simp add: encode_col_loop_nonempty)

lemma js_not_encode_col: "js_not (Some (encode_col col)) = False"
  by (simp add: js_not_def encode_col_nonempty)

lemmas string_eval = String_js_def toLowerCase_def lowerChar_def trim_def isSpace_def

lemma floor_numeral_div:
  "\<lfloor>numeral a / numeral b :: rat\<rfloor> = numeral a div numeral b"
  using floor_divide_of_int_eq [of "numeral a" "numeral b", where ?'a = rat] by simp





subsection \<open>The row loop and the result\<close>



lemma rowBody_ordered:
  "overdueCount st \<le> assignedCount st \<and> assignedCount st \<le> totalRows st \<Longrightarrow>
   overdueCount (rowBody h ws acol dueCol today row st)
     \<le> assignedCount (rowBody h ws acol dueCol today row st) \<and>
   assignedCount (rowBody h ws acol dueCol today row st)
     \<le> totalRows (rowBody h ws acol dueCol today row st)"
  by (simp add: rowBody_def Let_def split: option.splits)

lemma rowBody_no_due:
  "js_not dueCol \<Longrightarrow>
   overdueCount (rowBody h ws acol dueCol today row st) = overdueCount st"
  by (simp add: rowBody_def Let_def js_not_def split: option.splits)

lemma analyzeExcel_found:
  assumes "actionCol (findColumns h ws) = Some acol" and "acol \<noteq> []"
  shows "\<exists>r. analyzeExcel h ws = Inr r \<and>
     total_rows r = totalRows (finalCounts h ws acol) \<and>
     assigned_count r = assignedCount (finalCounts h ws acol) \<and>
     overdue_count r = overdueCount (finalCounts h ws acol) \<and>
     assigned_pct r =
       of_int (Math_round
         ((if totalRows (finalCounts h ws acol) > 0
           then (of_nat (assignedCount (finalCounts h ws acol)) /
                 of_nat (totalRows (finalCounts h ws acol))) * 100
           else 0) * 10)) / 10 \<and>
     overdue_pct_of_assigned r =
       of_int (Math_round
         ((if assignedCount (finalCounts h ws acol) > 0
           then (of_nat (overdueCount (finalCounts h ws acol)) /
                 of_nat (assignedCount (finalCounts h ws acol))) * 100
           else 0) * 10)) / 10 \<and>
     notes r = (if js_not (dueDateCol (findColumns h ws)) then [dueDateNote] else []) \<and>
     action (columns_used r) = acol \<and>
     due_date (columns_used r) =
       (case dueDateCol (findColumns h ws) of
          None \<Rightarrow> ''Not found''
        | Some d \<Rightarrow> if d = [] then ''Not found'' else d)"
  using assms by (simp add: analyzeExcel_def finalCounts_def Let_def)

lemma analyzeExcel_Inr:
  assumes "analyzeExcel h ws = Inr r"
  shows "\<exists>acol. actionCol (findColumns h ws) = Some acol \<and> acol \<noteq> []"
  using assms by (simp add: analyzeExcel_def Let_def split: option.splits if_splits)

lemma analyzeExcel_not_found:
  "js_not (actionCol (findColumns h ws)) \<Longrightarrow> analyzeExcel h ws = Inl (Error actionColumnMessage)"
  by (simp add: analyzeExcel_def Let_def js_not_def split: option.splits)

lemma finalCounts_ordered:
  "overdueCount (finalCounts h ws acol) \<le> assignedCount (finalCounts h ws acol) \<and>
   assignedCount (finalCounts h ws acol) \<le> totalRows (finalCounts h ws acol)"
  unfolding finalCounts_def
  by (rule for_upto_preserve) (simp_all add: rowBody_ordered)

lemma finalCounts_no_due:
  "js_not (dueDateCol (findColumns h ws)) \<Longrightarrow> overdueCount (finalCounts h ws acol) = 0"
  unfolding finalCounts_def
  by (rule for_upto_preserve) (simp_all add: rowBody_no_due)

lemma cellInput_displayOrRaw: "cellInput c = displayOrRaw c"
  by (simp add: cellInput_def displayOrRaw_def opt_w_def opt_v_def js_or_def
      split: option.splits)

lemma parseDate_unparseable: "unparseableOrMissing h x \<Longrightarrow> parseDate h x = None"
  by (cases x) (auto simp: unparseableOrMissing_def parseDate_def new_Date_def)

subsection \<open>The header scan\<close>

lemma due_date_text:
  "t = ''due date'' \<Longrightarrow> includes_js t ''due'' \<and> includes_js t ''date''"
  by simp

lemma columnsInv_init:
  "columnsInv h ws (s_c (decode_range_ref ws)) \<lparr>actionCol = None, dueDateCol = None\<rparr>"
  by (simp add: columnsInv_def candidatesBelow_def js_not_def)

lemma candidatesBelow_Suc:
  "s_c (decode_range_ref ws) \<le> j \<Longrightarrow>
   candidatesBelow h ws (Suc j) =
     candidatesBelow h ws j @
       (if isDueHeader h ws j \<and> \<not> takenAsAction h ws j then [j] else [])"
  by (simp add: candidatesBelow_def)

lemma columnsInv_step:
  assumes lo: "s_c (decode_range_ref ws) \<le> j" and inv: "columnsInv h ws j st"
  shows "columnsInv h ws (Suc j) (findColumns_body h ws j st)"
proof (cases "cells ws (encode_cell 0 j)")
  case None
  then have "\<not> isActionHeader h ws j" "\<not> isDueHeader h ws j"
    by (simp_all add: isActionHeader_def isDueHeader_def headerAt_def)
  moreover have "findColumns_body h ws j st = st"
    using None by (simp add: findColumns_body_def)
  ultimately show ?thesis
    using inv lo by (auto simp: columnsInv_def candidatesBelow_Suc split: if_splits)
next
  case (Some c)
  let ?t = "headerText h c"
  have act: "isActionHeader h ws j = includes_js ?t ''action''"
    using Some by (simp add: isActionHeader_def headerAt_def)
  have due: "isDueHeader h ws j = (includes_js ?t ''due'' \<and> includes_js ?t ''date'')"
    using Some by (simp add: isDueHeader_def headerAt_def)
  have taken: "takenAsAction h ws j = (includes_js ?t ''action'' \<and> js_not (actionCol st))"
    using inv act by (simp add: takenAsAction_def columnsInv_def)
  have cond: "((includes_js ?t ''due'' \<and> includes_js ?t ''date'') \<or>
       (?t = ''due date'' \<and> js_not (dueDateCol st))) =
      (includes_js ?t ''due'' \<and> includes_js ?t ''date'')"
    using due_date_text [of ?t] by blast
  show ?thesis
  proof (cases "includes_js ?t ''action'' \<and> js_not (actionCol st)")
    case True
    then have "findColumns_body h ws j st = st\<lparr>actionCol := Some (encode_col j)\<rparr>"
      using Some by (simp add: findColumns_body_def)
    then show ?thesis
      using inv lo True act taken
      by (auto simp: columnsInv_def candidatesBelow_Suc js_not_encode_col)
  next
    case notaken: False
    show ?thesis
    proof (cases "includes_js ?t ''due'' \<and> includes_js ?t ''date''")
      case True
      then have "findColumns_body h ws j st = st\<lparr>dueDateCol := Some (encode_col j)\<rparr>"
        using Some notaken cond by (auto simp: findColumns_body_def Let_def)
      moreover have "js_not (actionCol st) =
          list_all (\<lambda>c. \<not> isActionHeader h ws c) [s_c (decode_range_ref ws) ..< Suc j]"
        using inv lo notaken act by (auto simp: columnsInv_def)
      ultimately show ?thesis
        using lo True due taken notaken
        by (auto simp: columnsInv_def candidatesBelow_Suc)
    next
      case False
      then have "findColumns_body h ws j st = st"
        using Some notaken cond by (auto simp: findColumns_body_def Let_def)
      moreover have "js_not (actionCol st) =
          list_all (\<lambda>c. \<not> isActionHeader h ws c) [s_c (decode_range_ref ws) ..< Suc j]"
        using inv lo notaken act by (auto simp: columnsInv_def)
      ultimately show ?thesis
        using inv lo False due
        by (auto simp: columnsInv_def candidatesBelow_Suc)
    qed
  qed
qed

lemma findColumns_inv:
  "columnsInv h ws (Suc (e_c (decode_range_ref ws))) (findColumns h ws) \<or>
   (headerColumns ws = [] \<and> findColumns h ws = \<lparr>actionCol = None, dueDateCol = None\<rparr>)"
proof (cases "s_c (decode_range_ref ws) \<le> Suc (e_c (decode_range_ref ws))")
  case True
  have "columnsInv h ws (Suc (e_c (decode_range_ref ws)))
      (for_upto (s_c (decode_range_ref ws)) (e_c (decode_range_ref ws)) (findColumns_body h ws)
         \<lparr>actionCol = None, dueDateCol = None\<rparr>)"
    by (rule for_upto_inv [where P = "columnsInv h ws"])
      (simp_all add: columnsInv_init columnsInv_step True)
  then show ?thesis
    by (simp add: findColumns_def Let_def)
next
  case False
  then show ?thesis
    by (simp add: findColumns_def Let_def for_upto_stop headerColumns_def)
qed

lemma findColumns_action:
  "js_not (actionCol (findColumns h ws)) =
     list_all (\<lambda>c. \<not> isActionHeader h ws c) (headerColumns ws)"
  using findColumns_inv [of h ws]
  by (auto simp: columnsInv_def headerColumns_def js_not_def)

lemma findColumns_due:
  "dueDateCol (findColumns h ws) \<in>
     (if dueCandidates h ws = [] then {None}
      else (\<lambda>c. Some (encode_col c)) ` set (dueCandidates h ws))"
proof -
  have "candidatesBelow h ws (Suc (e_c (decode_range_ref ws))) = dueCandidates h ws"
    by (simp add: candidatesBelow_def dueCandidates_def headerColumns_def)
  moreover have "headerColumns ws = [] \<Longrightarrow> dueCandidates h ws = []"
    by (simp add: dueCandidates_def)
  ultimately show ?thesis
    using findColumns_inv [of h ws] by (auto simp: columnsInv_def)
qed

subsection \<open>The sample sheets evaluated\<close>

lemmas sample_eval = sampleHost_def textCell_def sheetOf_def decode_range_ref_def
  encode_cell_def encode_col_def encode_col_loop.simps headerText_def opt_w_def opt_v_def
  cellInput_def js_or_def js_not_def

lemmas header_eval = headerAt_def isActionHeader_def isDueHeader_def takenAsAction_def
  dueCandidates_def headerColumns_def



lemma findColumns_scenarioA:
  "findColumns h scenarioA = \<lparr>actionCol = Some ''A'', dueDateCol = Some ''B''\<rparr>"
  by (simp add: findColumns_def findColumns_body_def scenarioA_def for_upto.simps
      sample_eval string_eval)

lemma finalCounts_scenarioA:
  assumes "dateParse h ''2020-01-01'' = Some d" and "d < todayInKolkata h"
  shows "finalCounts h scenarioA ''A'' = \<lparr>totalRows = 3, assignedCount = 2, overdueCount = 2\<rparr>"
  unfolding finalCounts_def findColumns_scenarioA
  using assms
  by (simp add: rowBody_def isAssigned_def parseDate_def new_Date_def getTodayInKolkata_def
      scenarioA_def for_upto.simps sample_eval string_eval Let_def)

lemma findColumns_sheetTwoDue:
  "findColumns h sheetTwoDue = \<lparr>actionCol = Some ''A'', dueDateCol = Some ''C''\<rparr>"
  by (simp add: findColumns_def findColumns_body_def sheetTwoDue_def for_upto.simps
      sample_eval string_eval)

lemma analyze_scenarioA_sample:
  "\<exists>r. analyzeExcel sampleHost scenarioA = Inr r \<and> total_rows r = 3 \<and>
       assigned_count r = 2 \<and> overdue_count r = 2"
proof -
  have "finalCounts sampleHost scenarioA ''A'' =
      \<lparr>totalRows = 3, assignedCount = 2, overdueCount = 2\<rparr>"
    by (rule finalCounts_scenarioA [of sampleHost 1577836800000]) (simp_all add: sampleHost_def)
  then show ?thesis
    using analyzeExcel_found [of sampleHost scenarioA "''A''"]
    by (auto simp: findColumns_scenarioA)
qed

lemma findColumns_scenarioD:
  "findColumns h scenarioD = \<lparr>actionCol = Some ''A'', dueDateCol = Some ''B''\<rparr>"
  by (simp add: findColumns_def findColumns_body_def scenarioD_def for_upto.simps
      sample_eval string_eval)

lemma analyze_scenarioD_sample:
  "\<exists>r. analyzeExcel sampleHost scenarioD = Inr r \<and> total_rows r = 1 \<and>
       assigned_count r = 1 \<and> overdue_count r = 0"
proof -
  have "finalCounts sampleHost scenarioD ''A'' =
      \<lparr>totalRows = 1, assignedCount = 1, overdueCount = 0\<rparr>"
    unfolding finalCounts_def findColumns_scenarioD
    by (simp add: rowBody_def isAssigned_def parseDate_def new_Date_def getTodayInKolkata_def
        scenarioD_def for_upto.simps sample_eval string_eval Let_def)
  then show ?thesis
    using analyzeExcel_found [of sampleHost scenarioD "''A''"]
    by (auto simp: findColumns_scenarioD)
qed

lemma rowBody_sheetSerial_iso:
  "rowBody sampleHost (sheetSerial (Some ''2020-01-01'')) ''A'' (Some ''B'')
     (getTodayInKolkata sampleHost) 1 \<lparr>totalRows = 0, assignedCount = 0, overdueCount = 0\<rparr> =
   \<lparr>totalRows = 1, assignedCount = 1, overdueCount = 1\<rparr>"
  by (simp add: rowBody_def isAssigned_def parseDate_def new_Date_def getTodayInKolkata_def
      sheetSerial_def sample_eval string_eval Let_def)

lemma rowBody_sheetSerial_day:
  "rowBody sampleHost (sheetSerial (Some ''Wednesday'')) ''A'' (Some ''B'')
     (getTodayInKolkata sampleHost) 1 \<lparr>totalRows = 0, assignedCount = 0, overdueCount = 0\<rparr> =
   \<lparr>totalRows = 1, assignedCount = 1, overdueCount = 0\<rparr>"
  by (simp add: rowBody_def isAssigned_def parseDate_def new_Date_def getTodayInKolkata_def
      sheetSerial_def sample_eval string_eval Let_def)

subsection \<open>The classifier and the date normalizer\<close>

text \<open>
  Claim C5. \<open>isAssigned\<close> maps a blank or absent value (null, undefined, the empty
  string) to false; a value whose lower-cased trimmed text is one of yes, true,
  assigned, done, 1 to true; and every other value to true unless that text is one
  of no, false, unassigned, 0 or empty. The text No is not assigned and the text
  Maybe is assigned.
\<close>

theorem isAssigned_classification:
  "(v = JNull \<or> v = JUndefined \<or> v = JStr '''' \<longrightarrow> isAssigned h v = False) \<and>
   (v \<noteq> JNull \<and> v \<noteq> JUndefined \<and> v \<noteq> JStr '''' \<and>
      trim (toLowerCase (String_js h v)) \<in> {''yes'', ''true'', ''assigned'', ''done'', ''1''}
      \<longrightarrow> isAssigned h v = True) \<and>
   (v \<noteq> JNull \<and> v \<noteq> JUndefined \<and> v \<noteq> JStr '''' \<and>
      trim (toLowerCase (String_js h v)) \<notin> {''yes'', ''true'', ''assigned'', ''done'', ''1''}
      \<longrightarrow> isAssigned h v =
            (trim (toLowerCase (String_js h v)) \<notin> {''no'', ''false'', ''unassigned'', ''0'', ''''})) \<and>
   isAssigned h (JStr ''No'') = False \<and>
   isAssigned h (JStr ''Maybe'') = True"
proof -
  have blank: "v = JNull \<or> v = JUndefined \<or> v = JStr '''' \<longrightarrow> isAssigned h v = False"
    by (auto simp: isAssigned_def)
  have pos: "v \<noteq> JNull \<and> v \<noteq> JUndefined \<and> v \<noteq> JStr '''' \<and>
      trim (toLowerCase (String_js h v)) \<in> {''yes'', ''true'', ''assigned'', ''done'', ''1''}
      \<longrightarrow> isAssigned h v = True"
    by (auto simp: isAssigned_def Let_def)
  have other: "v \<noteq> JNull \<and> v \<noteq> JUndefined \<and> v \<noteq> JStr '''' \<and>
      trim (toLowerCase (String_js h v)) \<notin> {''yes'', ''true'', ''assigned'', ''done'', ''1''}
      \<longrightarrow> isAssigned h v =
            (trim (toLowerCase (String_js h v)) \<notin> {''no'', ''false'', ''unassigned'', ''0'', ''''})"
    by (simp add: isAssigned_def Let_def)
  have no: "isAssigned h (JStr ''No'') = False"
    by (simp add: isAssigned_def string_eval)
  have maybe: "isAssigned h (JStr ''Maybe'') = True"
    by (simp add: isAssigned_def string_eval)
  from blank pos other no maybe show ?thesis
    by blast
qed

theorem isAssigned_classification_witness:
  "isAssigned sampleHost JUndefined = False \<and>
   isAssigned sampleHost (JStr '' Done '') = True \<and>
   isAssigned sampleHost (JStr ''pending'') = True \<and>
   isAssigned sampleHost (JNum 0) = False"
  using isAssigned_classification [of JUndefined sampleHost]
    isAssigned_classification [of "JStr '' Done ''" sampleHost]
    isAssigned_classification [of "JStr ''pending''" sampleHost]
    isAssigned_classification [of "JNum 0" sampleHost]
  by (simp add: string_eval sampleHost_def decimal.simps)




subsection \<open>The header scan and the analysis\<close>

text \<open>
  Claim C1, amended. The due-date column is null exactly when the header row has no
  candidate, and otherwise it is the code of a candidate; with one candidate it is
  that one. A candidate is a header of row 0 within the range whose lower-cased
  trimmed text contains both \<open>due\<close> and \<open>date\<close> and which the scan did not take as
  the action column (the first header containing \<open>action\<close>).
\<close>

theorem dueDateCol_candidates:
  "(dueDateCol (findColumns h ws) = None \<longleftrightarrow> dueCandidates h ws = []) \<and>
   (\<forall>d. dueDateCol (findColumns h ws) = Some d \<longrightarrow>
      d \<in> encode_col ` set (dueCandidates h ws)) \<and>
   (dueCandidates h ws = [c] \<longrightarrow> dueDateCol (findColumns h ws) = Some (encode_col c))"
  using findColumns_due [of h ws] by (auto split: if_splits)

theorem dueDateCol_candidates_witness:
  "dueCandidates sampleHost scenarioA = [1] \<and>
   dueDateCol (findColumns sampleHost scenarioA) = Some ''B''"
proof -
  have c: "dueCandidates sampleHost scenarioA = [1]"
    by (simp add: header_eval scenarioA_def sample_eval string_eval)
  have "encode_col 1 = ''B''"
    by (simp add: encode_col_def encode_col_loop.simps)
  then show ?thesis
    using dueDateCol_candidates [of sampleHost scenarioA 1, THEN conjunct2, THEN conjunct2] c
    by simp
qed

theorem dueDateCol_counterexample:
  "dueDateColumnSpec sampleHost sheetBothHeader = Some ''A'' \<and>
   dueDateCol (findColumns sampleHost sheetBothHeader) = None"
  by (simp add: dueDateColumnSpec_def header_eval findColumns_def findColumns_body_def
      for_upto.simps sheetBothHeader_def sample_eval string_eval)

text \<open>
  Claim C2. On the sheet of scenario A, with today on 2024-01-01 and an engine that
  reads the text 2020-01-01 as that day (each within a day, whatever the zone), the
  analysis returns 3 rows, 2 assigned, 2 overdue, 66.7 per cent assigned and 100 per
  cent of the assigned overdue.
\<close>

theorem scenarioA_result:
  assumes "dateParse h ''2020-01-01'' = Some d"
    and "\<bar>d - 1577836800000\<bar> \<le> 86400000"
    and "\<bar>todayInKolkata h - 1704067200000\<bar> \<le> 86400000"
  shows "\<exists>r. analyzeExcel h scenarioA = Inr r \<and> total_rows r = 3 \<and> assigned_count r = 2 \<and>
           overdue_count r = 2 \<and> assigned_pct r = 667 / 10 \<and>
           overdue_pct_of_assigned r = 100"
proof -
  have "d < todayInKolkata h"
    using assms(2,3) by linarith
  then have c: "finalCounts h scenarioA ''A'' =
      \<lparr>totalRows = 3, assignedCount = 2, overdueCount = 2\<rparr>"
    using assms(1) by (rule finalCounts_scenarioA [rotated])
  have pct: "Math_round (2 / 3 * 100 * 10) = 667" "Math_round (2 / 2 * 100 * 10) = 1000"
    by (simp_all add: Math_round_def floor_numeral_div)
  show ?thesis
    using analyzeExcel_found [of h scenarioA "''A''"] c pct
    by (auto simp: findColumns_scenarioA)
qed

theorem scenarioA_result_witness:
  "\<exists>r. analyzeExcel sampleHost scenarioA = Inr r \<and> total_rows r = 3 \<and> assigned_count r = 2 \<and>
       overdue_count r = 2 \<and> assigned_pct r = 667 / 10 \<and> overdue_pct_of_assigned r = 100"
  using scenarioA_result [of sampleHost 1577836800000]
  by (simp add: sampleHost_def)




text \<open>
  Claim C6. When the analysis succeeds, the overdue count is at most the assigned
  count, which is at most the row count, and none is negative.
\<close>

theorem counts_ordered:
  assumes "analyzeExcel h ws = Inr r"
  shows "0 \<le> overdue_count r \<and> overdue_count r \<le> assigned_count r \<and>
         assigned_count r \<le> total_rows r"
proof -
  obtain acol where a: "actionCol (findColumns h ws) = Some acol" "acol \<noteq> []"
    using analyzeExcel_Inr [OF assms] by blast
  obtain r' where r': "analyzeExcel h ws = Inr r'"
    "total_rows r' = totalRows (finalCounts h ws acol)"
    "assigned_count r' = assignedCount (finalCounts h ws acol)"
    "overdue_count r' = overdueCount (finalCounts h ws acol)"
    using analyzeExcel_found [OF a] by blast
  have "r' = r"
    using assms r'(1) by simp
  then show ?thesis
    using r'(2-4) finalCounts_ordered [of h ws acol] by simp
qed

theorem counts_ordered_witness:
  "\<exists>r. analyzeExcel sampleHost scenarioA = Inr r \<and> total_rows r = 3 \<and>
       0 \<le> overdue_count r \<and> overdue_count r \<le> assigned_count r \<and>
       assigned_count r \<le> total_rows r"
proof -
  obtain r where r: "analyzeExcel sampleHost scenarioA = Inr r" "total_rows r = 3"
    using analyze_scenarioA_sample by blast
  then show ?thesis
    using counts_ordered [OF r(1)] by blast
qed

text \<open>
  Claim C7, amended. When no header of row 0 within the range contains \<open>action\<close>,
  the analysis ends with the error whose message names the column in double quotes,
  and with no result.
\<close>

theorem missing_action_column:
  \<open>list_all (\<lambda>c. \<not> isActionHeader h ws c) (headerColumns ws) \<Longrightarrow>
   analyzeExcel h ws =
     Inl (Error ''Action column not found. Please ensure your Excel file has an "Action" column.'')\<close>
  using analyzeExcel_not_found [of h ws]
  by (simp add: findColumns_action actionColumnMessage_def)

theorem missing_action_column_witness:
  "analyzeExcel sampleHost sheetNoAction = Inl (Error actionColumnMessage)"
proof -
  have "list_all (\<lambda>c. \<not> isActionHeader sampleHost sheetNoAction c) (headerColumns sheetNoAction)"
    by (simp add: header_eval sheetNoAction_def sample_eval string_eval)
  then show ?thesis
    using missing_action_column [of sampleHost sheetNoAction]
    by (simp add: actionColumnMessage_def)
qed

theorem missing_action_column_counterexample:
  "list_all (\<lambda>c. \<not> isActionHeader sampleHost sheetNoAction c) (headerColumns sheetNoAction) \<and>
   analyzeExcel sampleHost sheetNoAction \<noteq>
     Inl (Error ''Action column not found. Please ensure your Excel file has an 'Action' column.'')"
proof -
  have a: "list_all (\<lambda>c. \<not> isActionHeader sampleHost sheetNoAction c) (headerColumns sheetNoAction)"
    by (simp add: header_eval sheetNoAction_def sample_eval string_eval)
  then have "analyzeExcel sampleHost sheetNoAction = Inl (Error actionColumnMessage)"
    using analyzeExcel_not_found [of sampleHost sheetNoAction] by (simp add: findColumns_action)
  then show ?thesis
    using a by (simp add: actionColumnMessage_def)
qed

text \<open>
  Claim C8. When some header is an action header and there is no due-date candidate,
  the analysis succeeds with an overdue count of 0, the one note that the due-date
  column was not found, and \<open>Not found\<close> as the due-date column used.
\<close>

theorem missing_due_date_column:
  assumes "list_ex (isActionHeader h ws) (headerColumns ws)"
    and "dueCandidates h ws = []"
  shows "\<exists>r. analyzeExcel h ws = Inr r \<and> overdue_count r = 0 \<and>
           notes r = [''Due Date column not found. Overdue analysis skipped.''] \<and>
           due_date (columns_used r) = ''Not found''"
proof -
  have "\<not> js_not (actionCol (findColumns h ws))"
    using assms(1) by (simp add: findColumns_action list_all_iff list_ex_iff)
  then obtain acol where a: "actionCol (findColumns h ws) = Some acol" "acol \<noteq> []"
    by (auto simp: js_not_def split: option.splits)
  have d: "dueDateCol (findColumns h ws) = None"
    using findColumns_due [of h ws] assms(2) by simp
  then have "overdueCount (finalCounts h ws acol) = 0"
    by (simp add: finalCounts_no_due js_not_def)
  then show ?thesis
    using analyzeExcel_found [OF a] d by (auto simp: js_not_def dueDateNote_def)
qed

theorem missing_due_date_column_witness:
  "\<exists>r. analyzeExcel sampleHost sheetActionOnly = Inr r \<and> overdue_count r = 0 \<and>
       notes r = [''Due Date column not found. Overdue analysis skipped.''] \<and>
       due_date (columns_used r) = ''Not found''"
proof -
  have "list_ex (isActionHeader sampleHost sheetActionOnly) (headerColumns sheetActionOnly)"
    by (simp add: header_eval sheetActionOnly_def sample_eval string_eval)
  moreover have "dueCandidates sampleHost sheetActionOnly = []"
    by (simp add: header_eval sheetActionOnly_def sample_eval string_eval)
  ultimately show ?thesis
    by (rule missing_due_date_column)
qed

subsection \<open>Rows and their due dates\<close>

text \<open>
  Claim C9. \<open>parseDate\<close> has no failing branch: a due-date value that is missing, or
  a text the engine cannot read as a date, yields no date. A row with such a value
  never adds to the overdue count, and when its action value classifies as assigned
  the row is counted and counted as assigned. Without a due-date column no row adds
  to the overdue count either, and an assigned row is counted all the same.
\<close>

theorem unparseable_due_date:
  "(unparseableOrMissing h x \<longrightarrow> parseDate h x = None) \<and>
   (dcol \<noteq> [] \<and> unparseableOrMissing h (cellInput (cells ws (dcol, row))) \<longrightarrow>
      overdueCount (rowBody h ws acol (Some dcol) today row st) = overdueCount st \<and>
      (isAssigned h (cellInput (cells ws (acol, row))) \<longrightarrow>
         assignedCount (rowBody h ws acol (Some dcol) today row st) = assignedCount st + 1 \<and>
         totalRows (rowBody h ws acol (Some dcol) today row st) = totalRows st + 1)) \<and>
   overdueCount (rowBody h ws acol None today row st) = overdueCount st \<and>
   (isAssigned h (cellInput (cells ws (acol, row))) \<longrightarrow>
      assignedCount (rowBody h ws acol None today row st) = assignedCount st + 1 \<and>
      totalRows (rowBody h ws acol None today row st) = totalRows st + 1)"
proof -
  have none: "overdueCount (rowBody h ws acol None today row st) = overdueCount st"
    by (simp add: rowBody_no_due js_not_def)
  have absent: "\<not> isAssigned h (cellInput None)"
    by (simp add: isAssigned_def cellInput_def opt_w_def opt_v_def js_or_def)
  have counted: "isAssigned h (cellInput (cells ws (acol, row))) \<longrightarrow>
      assignedCount (rowBody h ws acol None today row st) = assignedCount st + 1 \<and>
      totalRows (rowBody h ws acol None today row st) = totalRows st + 1"
    using absent by (auto simp: rowBody_def Let_def js_not_def)
  have row: "dcol \<noteq> [] \<and> parseDate h (cellInput (cells ws (dcol, row))) = None \<longrightarrow>
      overdueCount (rowBody h ws acol (Some dcol) today row st) = overdueCount st \<and>
      (isAssigned h (cellInput (cells ws (acol, row))) \<longrightarrow>
         assignedCount (rowBody h ws acol (Some dcol) today row st) = assignedCount st + 1 \<and>
         totalRows (rowBody h ws acol (Some dcol) today row st) = totalRows st + 1)"
    by (simp add: rowBody_def Let_def js_not_def)
  then show ?thesis
    using parseDate_unparseable none counted by blast
qed

theorem unparseable_due_date_witness:
  "parseDate sampleHost (JStr ''N/A'') = None \<and>
   rowBody sampleHost scenarioD ''A'' (Some ''B'') (getTodayInKolkata sampleHost) 1
     \<lparr>totalRows = 0, assignedCount = 0, overdueCount = 0\<rparr> =
     \<lparr>totalRows = 1, assignedCount = 1, overdueCount = 0\<rparr> \<and>
   (\<exists>r. analyzeExcel sampleHost scenarioD = Inr r \<and> total_rows r = 1 \<and>
        assigned_count r = 1 \<and> overdue_count r = 0)"
proof -
  let ?st = "\<lparr>totalRows = 0, assignedCount = 0, overdueCount = 0\<rparr>"
  let ?r = "rowBody sampleHost scenarioD ''A'' (Some ''B'') (getTodayInKolkata sampleHost) 1 ?st"
  have u: "unparseableOrMissing sampleHost (JStr ''N/A'')"
    by (simp add: unparseableOrMissing_def sampleHost_def)
  have d: "cellInput (cells scenarioD (''B'', 1)) = JStr ''N/A''"
    by (simp add: scenarioD_def sample_eval)
  have a: "isAssigned sampleHost (cellInput (cells scenarioD (''A'', 1)))"
    by (simp add: scenarioD_def isAssigned_def sample_eval string_eval)
  have "overdueCount ?r = 0 \<and> assignedCount ?r = 1 \<and> totalRows ?r = 1"
    using unparseable_due_date
      [of sampleHost "JStr ''N/A''" "''B''" scenarioD 1 "''A''" "getTodayInKolkata sampleHost" ?st]
      u d a
    by simp
  moreover have "parseDate sampleHost (JStr ''N/A'') = None"
    using unparseable_due_date [of sampleHost "JStr ''N/A''"] u by blast
  ultimately have "parseDate sampleHost (JStr ''N/A'') = None \<and>
      ?r = \<lparr>totalRows = 1, assignedCount = 1, overdueCount = 0\<rparr>"
    by (cases ?r) simp
  then show ?thesis
    using analyze_scenarioD_sample by blast
qed

text \<open>
  Claim C10. The value given to \<open>isAssigned\<close> and to \<open>parseDate\<close> is the display text
  of the cell when that text is present and non-empty, and its raw value otherwise.
  So a due-date cell holding a numeric serial together with a display text is read
  through the text, not as a serial, and the row is overdue or not according to
  what the engine makes of that text: the serial 43831 shown as 2020-01-01 makes
  its row overdue, shown as Wednesday it does not.
\<close>

theorem display_text_fed:
  "cellInput c = displayOrRaw c \<and>
   (dcol \<noteq> [] \<longrightarrow>
      rowBody h ws acol (Some dcol) today row st =
        (let assigned = isAssigned h (displayOrRaw (cells ws (acol, row)));
             overdue = (assigned \<and>
               (case parseDate h (displayOrRaw (cells ws (dcol, row))) of
                  None \<Rightarrow> False
                | Some d \<Rightarrow> date_less d today))
         in st\<lparr>totalRows := totalRows st + 1,
                assignedCount := assignedCount st + (if assigned then 1 else 0),
                overdueCount := overdueCount st + (if overdue then 1 else 0)\<rparr>)) \<and>
   (rowBody h ws acol None today row st =
      (if cells ws (acol, row) = None then st
       else st\<lparr>totalRows := totalRows st + 1,
               assignedCount := assignedCount st +
                 (if isAssigned h (displayOrRaw (cells ws (acol, row))) then 1 else 0)\<rparr>)) \<and>
   (cell_v x = JNum n \<and> cell_w x = Some t \<and> t \<noteq> [] \<longrightarrow>
      parseDate h (cellInput (Some x)) =
        (case dateParse h t of None \<Rightarrow> None | Some ms \<Rightarrow> Some (Date ms))) \<and>
   overdueCount (rowBody sampleHost (sheetSerial (Some ''2020-01-01'')) ''A'' (Some ''B'')
     (getTodayInKolkata sampleHost) 1 \<lparr>totalRows = 0, assignedCount = 0, overdueCount = 0\<rparr>) = 1 \<and>
   overdueCount (rowBody sampleHost (sheetSerial (Some ''Wednesday'')) ''A'' (Some ''B'')
     (getTodayInKolkata sampleHost) 1 \<lparr>totalRows = 0, assignedCount = 0, overdueCount = 0\<rparr>) = 0"
proof -
  have iso: "overdueCount (rowBody sampleHost (sheetSerial (Some ''2020-01-01'')) ''A'' (Some ''B'')
      (getTodayInKolkata sampleHost) 1 \<lparr>totalRows = 0, assignedCount = 0, overdueCount = 0\<rparr>) = 1"
    by (simp only: rowBody_sheetSerial_iso counts.simps)
  have day: "overdueCount (rowBody sampleHost (sheetSerial (Some ''Wednesday'')) ''A'' (Some ''B'')
      (getTodayInKolkata sampleHost) 1 \<lparr>totalRows = 0, assignedCount = 0, overdueCount = 0\<rparr>) = 0"
    by (simp only: rowBody_sheetSerial_day counts.simps)
  have both: "dcol \<noteq> [] \<longrightarrow>
      rowBody h ws acol (Some dcol) today row st =
        (let assigned = isAssigned h (displayOrRaw (cells ws (acol, row)));
             overdue = (assigned \<and>
               (case parseDate h (displayOrRaw (cells ws (dcol, row))) of
                  None \<Rightarrow> False
                | Some d \<Rightarrow> date_less d today))
         in st\<lparr>totalRows := totalRows st + 1,
                assignedCount := assignedCount st + (if assigned then 1 else 0),
                overdueCount := overdueCount st + (if overdue then 1 else 0)\<rparr>)"
    by (simp add: rowBody_def Let_def js_not_def cellInput_displayOrRaw split: option.splits)
  have action: "rowBody h ws acol None today row st =
      (if cells ws (acol, row) = None then st
       else st\<lparr>totalRows := totalRows st + 1,
               assignedCount := assignedCount st +
                 (if isAssigned h (displayOrRaw (cells ws (acol, row))) then 1 else 0)\<rparr>)"
    by (simp add: rowBody_def Let_def js_not_def cellInput_displayOrRaw)
  have shown: "cell_v x = JNum n \<and> cell_w x = Some t \<and> t \<noteq> [] \<longrightarrow>
      parseDate h (cellInput (Some x)) =
        (case dateParse h t of None \<Rightarrow> None | Some ms \<Rightarrow> Some (Date ms))"
    by (simp add: cellInput_def opt_w_def opt_v_def js_or_def parseDate_def new_Date_def
        split: option.splits)
  from cellInput_displayOrRaw both action shown iso day show ?thesis
    by blast
qed

theorem display_text_fed_witness:
  "parseDate sampleHost (cellInput (Some \<lparr>cell_v = JNum 43831, cell_w = Some ''2020-01-01''\<rparr>)) =
     Some (Date 1577836800000) \<and>
   parseDate sampleHost (cellInput (Some \<lparr>cell_v = JNum 43831, cell_w = Some ''Wednesday''\<rparr>)) =
     None \<and>
   parseDate sampleHost (cellInput (Some \<lparr>cell_v = JNum 43831, cell_w = None\<rparr>)) =
     Some (Date 1577836800000) \<and>
   rowBody sampleHost scenarioA ''A'' (Some ''B'') (getTodayInKolkata sampleHost) 1
     \<lparr>totalRows = 0, assignedCount = 0, overdueCount = 0\<rparr> =
     \<lparr>totalRows = 1, assignedCount = 1, overdueCount = 1\<rparr>"
proof -
  let ?st = "\<lparr>totalRows = 0, assignedCount = 0, overdueCount = 0\<rparr>"
  have a: "parseDate sampleHost
      (cellInput (Some \<lparr>cell_v = JNum 43831, cell_w = Some ''2020-01-01''\<rparr>)) =
      Some (Date 1577836800000)"
    using display_text_fed
      [where h = sampleHost and n = 43831 and t = "''2020-01-01''"
         and x = "\<lparr>cell_v = JNum 43831, cell_w = Some ''2020-01-01''\<rparr>",
        THEN conjunct2, THEN conjunct2, THEN conjunct2, THEN conjunct1]
    by (simp add: sampleHost_def)
  have b: "parseDate sampleHost
      (cellInput (Some \<lparr>cell_v = JNum 43831, cell_w = Some ''Wednesday''\<rparr>)) = None"
    using display_text_fed
      [where h = sampleHost and n = 43831 and t = "''Wednesday''"
         and x = "\<lparr>cell_v = JNum 43831, cell_w = Some ''Wednesday''\<rparr>",
        THEN conjunct2, THEN conjunct2, THEN conjunct2, THEN conjunct1]
    by (simp add: sampleHost_def)
  have c: "parseDate sampleHost (cellInput (Some \<lparr>cell_v = JNum 43831, cell_w = None\<rparr>)) =
      Some (Date 1577836800000)"
    by (simp add: cellInput_def opt_w_def opt_v_def js_or_def parseDate_def new_Date_ms_def
        ToInteger_def sampleHost_def)
  have d: "rowBody sampleHost scenarioA ''A'' (Some ''B'') (getTodayInKolkata sampleHost) 1 ?st =
      \<lparr>totalRows = 1, assignedCount = 1, overdueCount = 1\<rparr>"
    using display_text_fed
      [where h = sampleHost and dcol = "''B''" and ws = scenarioA and acol = "''A''"
         and today = "getTodayInKolkata sampleHost" and row = 1 and st = ?st,
        THEN conjunct2, THEN conjunct1]
    by (simp add: displayOrRaw_def isAssigned_def parseDate_def new_Date_def
        getTodayInKolkata_def scenarioA_def sample_eval string_eval)
  from a b c d show ?thesis
    by blast
qed

end
